theory Spec2Isabelle
  imports Complex_Main "HOL-Library.AList"
begin

section \<open>Python strings\<close>

text \<open>
  A Python \<open>str\<close> is a sequence of code points. The model works with code points below
  256 (Latin-1), one \<open>char\<close> each; on that range the character classes below are the
  ones of \<open>str.isspace\<close>, \<open>str.lower\<close> and of the \<open>re\<close> module.
\<close>

definition isspace :: "char \<Rightarrow> bool" where
  "isspace c = (of_char c \<in> {9, 10, 11, 12, 13, 28, 29, 30, 31, 32, 133, 160 :: nat})"

definition lower_chr :: "char \<Rightarrow> char" where
  "lower_chr c =
     (let n = of_char c :: nat
      in if (65 \<le> n \<and> n \<le> 90) \<or> (192 \<le> n \<and> n \<le> 222 \<and> n \<noteq> 215)
         then char_of (n + 32) else c)"


definition lower :: "string \<Rightarrow> string" where
  "lower s = map lower_chr s"


definition strip :: "string \<Rightarrow> string" where
  "strip s = rev (dropWhile isspace (rev (dropWhile isspace s)))"

definition startswith :: "string \<Rightarrow> string \<Rightarrow> bool" where
  "startswith s p = (take (length p) s = p)"

definition newline :: char where
  "newline = CHR 0x0A"

text \<open>\<open>code.split("\n")\<close>: a text with \<open>k\<close> line feeds has \<open>k + 1\<close> lines.\<close>

fun split_newline :: "string \<Rightarrow> string list" where
  "split_newline [] = [[]]"
| "split_newline (c # cs) =
     (if c = newline then [] # split_newline cs
      else (case split_newline cs of
              [] \<Rightarrow> [[c]]
            | l # ls \<Rightarrow> (c # l) # ls))"

section \<open>Regular expressions of the \<open>re\<close> module\<close>

text \<open>
  The analyzers hand their patterns to \<open>re.search\<close> and \<open>re.match\<close> and use only whether
  there is a match. A pattern is held as its syntax tree; the constructors cover the
  syntax of the rule tables: a literal, \<open>.\<close>, a character set and its negation,
  \<open>\s\<close>, \<open>\d\<close>, \<open>\b\<close>, \<open>^\<close>, a negative lookahead \<open>(?!...)\<close>, sequence, alternative
  and repetition. \<open>r+\<close>, \<open>r?\<close> and \<open>r{1,3}\<close> are written with these.
\<close>

definition is_digit :: "char \<Rightarrow> bool" where
  "is_digit c = (let n = of_char c :: nat in 48 \<le> n \<and> n \<le> 57)"

definition is_word :: "char \<Rightarrow> bool" where
  "is_word c =
     (let n = of_char c :: nat
      in (48 \<le> n \<and> n \<le> 57) \<or> (65 \<le> n \<and> n \<le> 90) \<or> n = 95 \<or> (97 \<le> n \<and> n \<le> 122)
         \<or> n \<in> {170, 178, 179, 181, 185, 186, 188, 189, 190}
         \<or> (192 \<le> n \<and> n \<noteq> 215 \<and> n \<noteq> 247))"

datatype regex =
    Chr char
  | Dot
  | OneOf "char list"
  | NoneOf "char list"
  | Space
  | Digit
  | WordB
  | Bol
  | NotAhead regex
  | Eps
  | Seq regex regex
  | Alt regex regex
  | Star regex

text \<open>
  With the flag \<open>re.IGNORECASE\<close> (\<open>ic\<close>) a literal and a member of a set match a
  character when both have the same lower-case form.
\<close>

definition chr_eq :: "bool \<Rightarrow> char \<Rightarrow> char \<Rightarrow> bool" where
  "chr_eq ic c x = (if ic then lower_chr x = lower_chr c else x = c)"

definition in_set :: "bool \<Rightarrow> char list \<Rightarrow> char \<Rightarrow> bool" where
  "in_set ic cs x = list_ex (\<lambda>c. chr_eq ic c x) cs"

text \<open>\<open>\b\<close>: exactly one of the characters before and after the position is a word character.\<close>

definition at_boundary :: "string \<Rightarrow> nat \<Rightarrow> bool" where
  "at_boundary s i =
     ((0 < i \<and> i \<le> length s \<and> is_word (s ! (i - 1)))
      \<noteq> (i < length s \<and> is_word (s ! i)))"

text \<open>
  A position is an index into the subject string, from 0 to its length. \<open>ends r ic s P\<close>
  lists the positions where a match of \<open>r\<close> that starts at a position of \<open>P\<close> can end.
\<close>

definition consume :: "(char \<Rightarrow> bool) \<Rightarrow> string \<Rightarrow> nat list \<Rightarrow> nat list" where
  "consume p s P = map Suc (filter (\<lambda>i. i < length s \<and> p (s ! i)) P)"

text \<open>
  Repetition: the positions of \<open>P\<close>, those one round of \<open>f\<close> further, and so on. A
  string of length \<open>n\<close> has \<open>n + 1\<close> positions, so every position that any number of
  rounds reaches is reached within \<open>n + 1\<close> rounds.
\<close>

fun star :: "(nat list \<Rightarrow> nat list) \<Rightarrow> nat \<Rightarrow> nat list \<Rightarrow> nat list" where
  "star f 0 P = P"
| "star f (Suc n) P = (if P = [] then [] else P @ star f n (f P))"

primrec ends :: "regex \<Rightarrow> bool \<Rightarrow> string \<Rightarrow> nat list \<Rightarrow> nat list" where
  "ends (Chr c) ic s P = consume (chr_eq ic c) s P"
| "ends Dot ic s P = consume (\<lambda>x. x \<noteq> newline) s P"
| "ends (OneOf cs) ic s P = consume (in_set ic cs) s P"
| "ends (NoneOf cs) ic s P = consume (\<lambda>x. \<not> in_set ic cs x) s P"
| "ends Space ic s P = consume isspace s P"
| "ends Digit ic s P = consume is_digit s P"
| "ends WordB ic s P = filter (at_boundary s) P"
| "ends Bol ic s P = filter (\<lambda>i. i = 0) P"
| "ends (NotAhead r) ic s P = filter (\<lambda>i. ends r ic s [i] = []) P"
| "ends Eps ic s P = P"
| "ends (Seq a b) ic s P = ends b ic s (ends a ic s P)"
| "ends (Alt a b) ic s P = ends a ic s P @ ends b ic s P"
| "ends (Star a) ic s P = star (ends a ic s) (Suc (length s)) P"

text \<open>\<open>re.search\<close> tries every start position, \<open>re.match\<close> only the start of the string.\<close>

definition re_search :: "regex \<Rightarrow> string \<Rightarrow> bool \<Rightarrow> bool" where
  "re_search pattern s ic = (ends pattern ic s [0..<Suc (length s)] \<noteq> [])"


definition Str :: "string \<Rightarrow> regex" where
  "Str w = foldr (\<lambda>c r. Seq (Chr c) r) w Eps"

definition Seqs :: "regex list \<Rightarrow> regex" where
  "Seqs rs = foldr Seq rs Eps"

definition Plus :: "regex \<Rightarrow> regex" where
  "Plus r = Seq r (Star r)"

definition Opt :: "regex \<Rightarrow> regex" where
  "Opt r = Alt r Eps"

definition dquote :: char where
  "dquote = CHR 0x22"

definition squote :: char where
  "squote = CHR 0x27"

section \<open>SecurityAnalyzer\<close>

text \<open>
  A Python dictionary keeps its keys in insertion order; it is held as an association
  list. Reading a missing key raises \<open>KeyError\<close>.
\<close>

datatype error = KeyError string

definition dict_get :: "(string \<times> 'v) list \<Rightarrow> string \<Rightarrow> error + 'v" where
  "dict_get d k = (case map_of d k of None \<Rightarrow> Inl (KeyError k) | Some v \<Rightarrow> Inr v)"

definition dict_update :: "('k \<times> 'v) list \<Rightarrow> ('k \<times> 'v) list \<Rightarrow> ('k \<times> 'v) list" where
  "dict_update d other = fold (\<lambda>(k, v) d. AList.update k v d) other d"

text \<open>A loop whose body may raise stops at the first error.\<close>

fun fold_err :: "('a \<Rightarrow> 's \<Rightarrow> error + 's) \<Rightarrow> 'a list \<Rightarrow> 's \<Rightarrow> error + 's" where
  "fold_err f [] s = Inr s"
| "fold_err f (x # xs) s = (case f x s of Inl e \<Rightarrow> Inl e | Inr s' \<Rightarrow> fold_err f xs s')"

fun py_enumerate :: "int \<Rightarrow> 'a list \<Rightarrow> (int \<times> 'a) list" where
  "py_enumerate n [] = []"
| "py_enumerate n (x # xs) = (n, x) # py_enumerate (n + 1) xs"

type_synonym rule = "regex \<times> string"

text \<open>The rule tables, each pattern under the text it has in the source.\<close>

definition python_patterns :: "(string \<times> rule list) list" where
  \<open>python_patterns =
   [(''sql_injection'',
     [\<comment> \<open>\<^verbatim>\<open>execute\s*\(\s*["\'].*%s\<close>\<close>
      (Seqs [Str ''execute'', Star Space, Chr CHR ''('', Star Space, OneOf [dquote, squote],
             Star Dot, Str ''%s''],
       ''Possible SQL injection using string formatting''),
      \<comment> \<open>\<^verbatim>\<open>execute\s*\(\s*f["\']\<close>\<close>
      (Seqs [Str ''execute'', Star Space, Chr CHR ''('', Star Space, Chr CHR ''f'',
             OneOf [dquote, squote]],
       ''Possible SQL injection using f-string''),
      \<comment> \<open>\<^verbatim>\<open>execute\s*\(\s*["\'].*\+\<close>\<close>
      (Seqs [Str ''execute'', Star Space, Chr CHR ''('', Star Space, OneOf [dquote, squote],
             Star Dot, Chr CHR ''+''],
       ''Possible SQL injection using string concatenation''),
      \<comment> \<open>\<^verbatim>\<open>cursor\.execute\s*\([^,]+\+\<close>\<close>
      (Seqs [Str ''cursor.execute'', Star Space, Chr CHR ''('', Plus (NoneOf '',''),
             Chr CHR ''+''],
       ''SQL query built with concatenation'')]),
    (''command_injection'',
     [\<comment> \<open>\<^verbatim>\<open>os\.system\s*\(\<close>\<close>
      (Seqs [Str ''os.system'', Star Space, Chr CHR ''(''],
       ''Use of os.system() - consider subprocess instead''),
      \<comment> \<open>\<^verbatim>\<open>subprocess\.call\s*\([^,]+shell\s*=\s*True\<close>\<close>
      (Seqs [Str ''subprocess.call'', Star Space, Chr CHR ''('', Plus (NoneOf '',''),
             Str ''shell'', Star Space, Chr CHR ''='', Star Space, Str ''True''],
       ''Shell=True with subprocess is dangerous''),
      \<comment> \<open>\<^verbatim>\<open>subprocess\.Popen\s*\([^,]+shell\s*=\s*True\<close>\<close>
      (Seqs [Str ''subprocess.Popen'', Star Space, Chr CHR ''('', Plus (NoneOf '',''),
             Str ''shell'', Star Space, Chr CHR ''='', Star Space, Str ''True''],
       ''Shell=True with subprocess is dangerous''),
      \<comment> \<open>\<^verbatim>\<open>eval\s*\(\<close>\<close>
      (Seqs [Str ''eval'', Star Space, Chr CHR ''(''],
       ''Use of eval() - potential code injection''),
      \<comment> \<open>\<^verbatim>\<open>exec\s*\(\<close>\<close>
      (Seqs [Str ''exec'', Star Space, Chr CHR ''(''],
       ''Use of exec() - potential code injection'')]),
    (''hardcoded_secrets'',
     [\<comment> \<open>\<^verbatim>\<open>password\s*=\s*["\'][^"\']+["\']\<close>\<close>
      (Seqs [Str ''password'', Star Space, Chr CHR ''='', Star Space, OneOf [dquote, squote],
             Plus (NoneOf [dquote, squote]), OneOf [dquote, squote]],
       ''Possible hardcoded password''),
      \<comment> \<open>\<^verbatim>\<open>api_key\s*=\s*["\'][^"\']+["\']\<close>\<close>
      (Seqs [Str ''api_key'', Star Space, Chr CHR ''='', Star Space, OneOf [dquote, squote],
             Plus (NoneOf [dquote, squote]), OneOf [dquote, squote]],
       ''Possible hardcoded API key''),
      \<comment> \<open>\<^verbatim>\<open>secret\s*=\s*["\'][^"\']+["\']\<close>\<close>
      (Seqs [Str ''secret'', Star Space, Chr CHR ''='', Star Space, OneOf [dquote, squote],
             Plus (NoneOf [dquote, squote]), OneOf [dquote, squote]],
       ''Possible hardcoded secret''),
      \<comment> \<open>\<^verbatim>\<open>token\s*=\s*["\'][^"\']+["\']\<close>\<close>
      (Seqs [Str ''token'', Star Space, Chr CHR ''='', Star Space, OneOf [dquote, squote],
             Plus (NoneOf [dquote, squote]), OneOf [dquote, squote]],
       ''Possible hardcoded token''),
      \<comment> \<open>\<^verbatim>\<open>AWS_ACCESS_KEY\<close>\<close>
      (Str ''AWS_ACCESS_KEY'', ''Possible AWS credentials''),
      \<comment> \<open>\<^verbatim>\<open>PRIVATE_KEY\<close>\<close>
      (Str ''PRIVATE_KEY'', ''Possible private key'')]),
    (''unsafe_deserialization'',
     [\<comment> \<open>\<^verbatim>\<open>pickle\.loads?\s*\(\<close>\<close>
      (Seqs [Str ''pickle.load'', Opt (Chr CHR ''s''), Star Space, Chr CHR ''(''],
       ''Pickle deserialization - untrusted data is dangerous''),
      \<comment> \<open>\<^verbatim>\<open>yaml\.load\s*\([^,]+\)\<close>\<close>
      (Seqs [Str ''yaml.load'', Star Space, Chr CHR ''('', Plus (NoneOf '',''), Chr CHR '')''],
       ''Use yaml.safe_load() instead of yaml.load()''),
      \<comment> \<open>\<^verbatim>\<open>marshal\.loads?\s*\(\<close>\<close>
      (Seqs [Str ''marshal.load'', Opt (Chr CHR ''s''), Star Space, Chr CHR ''(''],
       ''Marshal deserialization is unsafe'')]),
    (''path_traversal'',
     [\<comment> \<open>\<^verbatim>\<open>open\s*\([^)]*\+[^)]*\)\<close>\<close>
      (Seqs [Str ''open'', Star Space, Chr CHR ''('', Star (NoneOf '')''), Chr CHR ''+'',
             Star (NoneOf '')''), Chr CHR '')''],
       ''File open with concatenation - possible path traversal'')]),
    (''weak_crypto'',
     [\<comment> \<open>\<^verbatim>\<open>md5\s*\(\<close>\<close>
      (Seqs [Str ''md5'', Star Space, Chr CHR ''(''],
       ''MD5 is cryptographically weak - use SHA-256+''),
      \<comment> \<open>\<^verbatim>\<open>sha1\s*\(\<close>\<close>
      (Seqs [Str ''sha1'', Star Space, Chr CHR ''(''],
       ''SHA1 is cryptographically weak - use SHA-256+''),
      \<comment> \<open>\<^verbatim>\<open>DES\s*\(\<close>\<close>
      (Seqs [Str ''DES'', Star Space, Chr CHR ''(''],
       ''DES encryption is weak - use AES'')]),
    (''insecure_random'',
     [\<comment> \<open>\<^verbatim>\<open>random\.random\s*\(\<close>\<close>
      (Seqs [Str ''random.random'', Star Space, Chr CHR ''(''],
       ''random.random() not cryptographically secure - use secrets module''),
      \<comment> \<open>\<^verbatim>\<open>random\.randint\s*\(\<close>\<close>
      (Seqs [Str ''random.randint'', Star Space, Chr CHR ''(''],
       ''random.randint() not cryptographically secure - use secrets module'')]),
    (''debug_code'',
     [\<comment> \<open>\<^verbatim>\<open>print\s*\(.*password\<close>\<close>
      (Seqs [Str ''print'', Star Space, Chr CHR ''('', Star Dot, Str ''password''],
       ''Printing password information''),
      \<comment> \<open>\<^verbatim>\<open>DEBUG\s*=\s*True\<close>\<close>
      (Seqs [Str ''DEBUG'', Star Space, Chr CHR ''='', Star Space, Str ''True''],
       ''Debug mode enabled''),
      \<comment> \<open>\<^verbatim>\<open>\.set_trace\s*\(\<close>\<close>
      (Seqs [Str ''.set_trace'', Star Space, Chr CHR ''(''],
       ''Debugger breakpoint in code'')])]\<close>

definition javascript_patterns :: "(string \<times> rule list) list" where
  \<open>javascript_patterns =
   [(''xss'',
     [\<comment> \<open>\<^verbatim>\<open>innerHTML\s*=\<close>\<close>
      (Seqs [Str ''innerHTML'', Star Space, Chr CHR ''=''],
       ''innerHTML assignment - possible XSS''),
      \<comment> \<open>\<^verbatim>\<open>document\.write\s*\(\<close>\<close>
      (Seqs [Str ''document.write'', Star Space, Chr CHR ''(''],
       ''document.write() - possible XSS''),
      \<comment> \<open>\<^verbatim>\<open>\.html\s*\([^)]+\+\<close>\<close>
      (Seqs [Str ''.html'', Star Space, Chr CHR ''('', Plus (NoneOf '')''), Chr CHR ''+''],
       ''jQuery .html() with concatenation - possible XSS'')]),
    (''eval'',
     [\<comment> \<open>\<^verbatim>\<open>eval\s*\(\<close>\<close>
      (Seqs [Str ''eval'', Star Space, Chr CHR ''(''],
       ''Use of eval() - potential code injection''),
      \<comment> \<open>\<^verbatim>\<open>new\s+Function\s*\(\<close>\<close>
      (Seqs [Str ''new'', Plus Space, Str ''Function'', Star Space, Chr CHR ''(''],
       ''new Function() is similar to eval''),
      \<comment> \<open>\<^verbatim>\<open>setTimeout\s*\(\s*["\']\<close>\<close>
      (Seqs [Str ''setTimeout'', Star Space, Chr CHR ''('', Star Space, OneOf [dquote, squote]],
       ''setTimeout with string - similar to eval''),
      \<comment> \<open>\<^verbatim>\<open>setInterval\s*\(\s*["\']\<close>\<close>
      (Seqs [Str ''setInterval'', Star Space, Chr CHR ''('', Star Space, OneOf [dquote, squote]],
       ''setInterval with string - similar to eval'')]),
    (''hardcoded_secrets'',
     [\<comment> \<open>\<^verbatim>\<open>apiKey\s*[:=]\s*["\'][^"\']+["\']\<close>\<close>
      (Seqs [Str ''apiKey'', Star Space, OneOf '':='', Star Space, OneOf [dquote, squote],
             Plus (NoneOf [dquote, squote]), OneOf [dquote, squote]],
       ''Possible hardcoded API key''),
      \<comment> \<open>\<^verbatim>\<open>password\s*[:=]\s*["\'][^"\']+["\']\<close>\<close>
      (Seqs [Str ''password'', Star Space, OneOf '':='', Star Space, OneOf [dquote, squote],
             Plus (NoneOf [dquote, squote]), OneOf [dquote, squote]],
       ''Possible hardcoded password''),
      \<comment> \<open>\<^verbatim>\<open>secret\s*[:=]\s*["\'][^"\']+["\']\<close>\<close>
      (Seqs [Str ''secret'', Star Space, OneOf '':='', Star Space, OneOf [dquote, squote],
             Plus (NoneOf [dquote, squote]), OneOf [dquote, squote]],
       ''Possible hardcoded secret'')]),
    (''prototype_pollution'',
     [\<comment> \<open>\<^verbatim>\<open>__proto__\<close>\<close>
      (Str ''__proto__'', ''Prototype pollution risk''),
      \<comment> \<open>\<^verbatim>\<open>constructor\s*\[\<close>\<close>
      (Seqs [Str ''constructor'', Star Space, Chr CHR ''[''],
       ''Possible prototype pollution'')])]\<close>

text \<open>
  The general patterns begin with the inline flag \<open>(?i)\<close>, which sets the flag
  \<open>re.IGNORECASE\<close> for the whole pattern; \<open>analyze\<close> passes that flag in any case.
  \<open>\d{1,3}\<close> is one digit and up to two more.
\<close>

definition digits_1_3 :: regex where
  "digits_1_3 = Seqs [Digit, Opt Digit, Opt Digit]"

definition general_patterns :: "(string \<times> rule list) list" where
  \<open>general_patterns =
   [(''sensitive_data'',
     [\<comment> \<open>\<^verbatim>\<open>(?i)password\<close>\<close>
      (Str ''password'', ''Reference to password''),
      \<comment> \<open>\<^verbatim>\<open>(?i)api[_-]?key\<close>\<close>
      (Seqs [Str ''api'', Opt (OneOf ''_-''), Str ''key''], ''Reference to API key''),
      \<comment> \<open>\<^verbatim>\<open>(?i)secret[_-]?key\<close>\<close>
      (Seqs [Str ''secret'', Opt (OneOf ''_-''), Str ''key''], ''Reference to secret key''),
      \<comment> \<open>\<^verbatim>\<open>(?i)auth[_-]?token\<close>\<close>
      (Seqs [Str ''auth'', Opt (OneOf ''_-''), Str ''token''], ''Reference to auth token''),
      \<comment> \<open>\<^verbatim>\<open>(?i)private[_-]?key\<close>\<close>
      (Seqs [Str ''private'', Opt (OneOf ''_-''), Str ''key''], ''Reference to private key'')]),
    (''ip_addresses'',
     [\<comment> \<open>\<^verbatim>\<open>\b\d{1,3}\.\d{1,3}\.\d{1,3}\.\d{1,3}\b\<close>\<close>
      (Seqs [WordB, digits_1_3, Chr CHR ''.'', digits_1_3, Chr CHR ''.'', digits_1_3,
             Chr CHR ''.'', digits_1_3, WordB],
       ''Hardcoded IP address'')]),
    (''urls'',
     [\<comment> \<open>\<^verbatim>\<open>http://(?!localhost)\<close>\<close>
      (Seqs [Str ''http://'', NotAhead (Str ''localhost'')], ''HTTP URL (not HTTPS)'')])]\<close>

definition SECURITY_PATTERNS :: "(string \<times> (string \<times> rule list) list) list" where
  "SECURITY_PATTERNS =
     [(''python'', python_patterns),
      (''javascript'', javascript_patterns),
      (''general'', general_patterns)]"

record issue =
  issue_line :: int
  issue_category :: string
  issue_message :: string
  issue_severity :: string
  issue_code :: string

text \<open>
  \<open>results\<close> is the dictionary that \<open>analyze\<close> fills while it scans; \<open>report\<close> is the
  same dictionary once \<open>total_issues\<close> and \<open>risk_score\<close> have been added.
\<close>

record results =
  issues :: "issue list"
  severity_counts :: "(string \<times> int) list"
  categories :: "(string \<times> int) list"

record report = results +
  total_issues :: int
  risk_score :: int

definition determine_severity :: "string \<Rightarrow> regex \<Rightarrow> string" where
  "determine_severity category pattern =
     (let critical_categories = [''sql_injection'', ''command_injection'', ''unsafe_deserialization''];
          high_categories = [''xss'', ''eval'', ''prototype_pollution'', ''hardcoded_secrets''];
          medium_categories = [''weak_crypto'', ''path_traversal'']
      in if category \<in> set critical_categories then ''critical''
         else if category \<in> set high_categories then ''high''
         else if category \<in> set medium_categories then ''medium''
         else ''low'')"

definition calculate_risk_score :: "'a results_scheme \<Rightarrow> int" where
  "calculate_risk_score res =
     (let weights = [(''critical'', 25), (''high'', 15), (''medium'', 5), (''low'', 2 :: int)];
          score = fold (\<lambda>(severity, count) score.
                          score + count * (case map_of weights severity of
                                             Some w \<Rightarrow> w
                                           | None \<Rightarrow> 1))
                       (severity_counts res) 0
      in min score 100)"

text \<open>The test that skips a comment line.\<close>

definition is_comment_line :: "string \<Rightarrow> bool" where
  "is_comment_line l =
     (let stripped = strip l
      in startswith stripped ''#'' \<or> startswith stripped ''//''
         \<or> startswith stripped ''/*'' \<or> startswith stripped ''*'')"

text \<open>
  The body of the innermost loop, for one line. The state is the list
  \<open>category_issues\<close> and the dictionary \<open>results\<close>.
\<close>

definition line_step ::
  "string \<Rightarrow> regex \<Rightarrow> string \<Rightarrow> int \<times> string \<Rightarrow> issue list \<times> results
     \<Rightarrow> error + issue list \<times> results" where
  "line_step category pattern msg il st =
     (let i = fst il; l = snd il; category_issues = fst st; res = snd st
      in if is_comment_line l then Inr st
         else if re_search pattern l True then
           (let severity = determine_severity category pattern;
                issue = \<lparr>issue_line = i, issue_category = category, issue_message = msg,
                         issue_severity = severity, issue_code = take 80 (strip l)\<rparr>
            in case dict_get (severity_counts res) severity of
                 Inl e \<Rightarrow> Inl e
               | Inr n \<Rightarrow>
                   Inr (category_issues @ [issue],
                        res\<lparr>issues := issues res @ [issue],
                            severity_counts := AList.update severity (n + 1) (severity_counts res)\<rparr>))
         else Inr st)"

definition pattern_step ::
  "string list \<Rightarrow> string \<Rightarrow> rule \<Rightarrow> issue list \<times> results \<Rightarrow> error + issue list \<times> results" where
  "pattern_step lines category r st =
     fold_err (line_step category (fst r) (snd r)) (py_enumerate 1 lines) st"

definition category_step ::
  "string list \<Rightarrow> string \<times> rule list \<Rightarrow> results \<Rightarrow> error + results" where
  "category_step lines c res =
     (let category = fst c; patterns = snd c
      in case fold_err (pattern_step lines category) patterns ([], res) of
           Inl e \<Rightarrow> Inl e
         | Inr st \<Rightarrow>
             (let category_issues = fst st; res' = snd st
              in Inr (if category_issues \<noteq> []
                      then res'\<lparr>categories :=
                                 AList.update category (int (length category_issues))
                                   (categories res')\<rparr>
                      else res')))"

definition patterns_to_check :: "string \<Rightarrow> error + (string \<times> rule list) list" where
  "patterns_to_check language =
     (let patterns = [];
          patterns = (case map_of SECURITY_PATTERNS language of
                        Some table \<Rightarrow> dict_update patterns table
                      | None \<Rightarrow> patterns)
      in case dict_get SECURITY_PATTERNS ''general'' of
           Inl e \<Rightarrow> Inl e
         | Inr general \<Rightarrow> Inr (dict_update patterns general))"

definition analyze :: "string \<Rightarrow> string \<Rightarrow> error + report" where
  "analyze code language =
     (let language = lower language;
          lines = split_newline code;
          res = \<lparr>issues = [],
                 severity_counts = [(''critical'', 0), (''high'', 0), (''medium'', 0), (''low'', 0)],
                 categories = []\<rparr>
      in case patterns_to_check language of
           Inl e \<Rightarrow> Inl e
         | Inr patterns \<Rightarrow>
             (case fold_err (category_step lines) patterns res of
                Inl e \<Rightarrow> Inl e
              | Inr res \<Rightarrow>
                  Inr \<lparr>issues = issues res, severity_counts = severity_counts res,
                       categories = categories res,
                       total_issues = int (length (issues res)),
                       risk_score = calculate_risk_score res\<rparr>))"

subsection \<open>What the scan computes\<close>

text \<open>
  The findings of the three nested loops, written as list comprehensions: the lines a
  rule fires on, the findings of a category, the findings of all active categories.
\<close>

definition sev_keys :: "string list" where
  "sev_keys = [''critical'', ''high'', ''medium'', ''low'']"

definition count_sev :: "string \<Rightarrow> issue list \<Rightarrow> int" where
  "count_sev k fs = int (length (filter (\<lambda>f. issue_severity f = k) fs))"

definition counts_of :: "issue list \<Rightarrow> (string \<times> int) list" where
  "counts_of fs = map (\<lambda>k. (k, count_sev k fs)) sev_keys"

definition fires :: "regex \<Rightarrow> int \<times> string \<Rightarrow> bool" where
  "fires pattern il = (\<not> is_comment_line (snd il) \<and> re_search pattern (snd il) True)"

definition finding :: "string \<Rightarrow> rule \<Rightarrow> int \<times> string \<Rightarrow> issue" where
  "finding category r il =
     \<lparr>issue_line = fst il, issue_category = category, issue_message = snd r,
      issue_severity = determine_severity category (fst r),
      issue_code = take 80 (strip (snd il))\<rparr>"

definition rule_findings :: "(int \<times> string) list \<Rightarrow> string \<Rightarrow> rule \<Rightarrow> issue list" where
  "rule_findings ils category r = map (finding category r) (filter (fires (fst r)) ils)"

definition category_findings :: "(int \<times> string) list \<Rightarrow> string \<times> rule list \<Rightarrow> issue list" where
  "category_findings ils c = concat (map (rule_findings ils (fst c)) (snd c))"

definition all_findings :: "(int \<times> string) list \<Rightarrow> (string \<times> rule list) list \<Rightarrow> issue list" where
  "all_findings ils cs = concat (map (category_findings ils) cs)"

definition category_counts ::
  "(int \<times> string) list \<Rightarrow> (string \<times> rule list) list \<Rightarrow> (string \<times> int) list
     \<Rightarrow> (string \<times> int) list" where
  "category_counts ils cs d =
     fold (\<lambda>c d. if category_findings ils c \<noteq> []
                  then AList.update (fst c) (int (length (category_findings ils c))) d
                  else d) cs d"

definition add_findings :: "issue list \<Rightarrow> results \<Rightarrow> results" where
  "add_findings new res =
     res\<lparr>issues := issues res @ new, severity_counts := counts_of (issues res @ new)\<rparr>"

definition scanned :: "(int \<times> string) list \<Rightarrow> (string \<times> rule list) list \<Rightarrow> results \<Rightarrow> results" where
  "scanned ils cs res =
     (add_findings (all_findings ils cs) res)\<lparr>categories := category_counts ils cs (categories res)\<rparr>"

definition counted :: "results \<Rightarrow> bool" where
  "counted res = (severity_counts res = counts_of (issues res))"

definition active_patterns :: "string \<Rightarrow> (string \<times> rule list) list" where
  "active_patterns language =
     dict_update (case map_of SECURITY_PATTERNS language of
                    Some table \<Rightarrow> dict_update [] table
                  | None \<Rightarrow> [])
                 general_patterns"

definition weighted :: "issue list \<Rightarrow> int" where
  "weighted fs =
     25 * count_sev ''critical'' fs + 15 * count_sev ''high'' fs
     + 5 * count_sev ''medium'' fs + 2 * count_sev ''low'' fs"







section \<open>QualityAnalyzer: score and grade\<close>

text \<open>
  The entries of the \<open>results\<close> dictionary that \<open>_calculate_score\<close> reads. The ratios
  are Python floats; a float is a rational number and is held as such. No float lies
  between a decimal threshold of the source (0.1, 0.5, 0.8) and the float that the
  literal denotes, so comparing with the decimal fraction decides as the source does.
\<close>

record metrics =
  comment_ratio :: rat
  average_line_length :: rat
  lines_per_function :: rat

record naming_issue =
  naming_line :: int
  naming_name :: string
  naming_type :: string
  naming_message :: string

record documentation =
  has_module_doc :: bool
  coverage :: rat

record smell =
  smell_line :: int
  smell_type :: string
  smell_message :: string
  smell_severity :: string

record quality_results =
  q_metrics :: metrics
  q_naming_issues :: "naming_issue list"
  q_documentation :: documentation
  q_code_smells :: "smell list"

definition smell_step :: "smell \<Rightarrow> int \<Rightarrow> int" where
  "smell_step s score =
     (if smell_severity s = ''high'' then score - 8
      else if smell_severity s = ''medium'' then score - 5
      else score - 2)"

definition calculate_score :: "quality_results \<Rightarrow> int" where
  "calculate_score results =
     (let score = 100;
          m = q_metrics results;
          score = (if comment_ratio m < 1 / 10 then score - 10 else score);
          score = (if average_line_length m > 80 then score - 5 else score);
          score = (if lines_per_function m > 30 then score - 10 else score);
          score = score - min (int (length (q_naming_issues results)) * 2) 15;
          doc = q_documentation results;
          score = (if \<not> has_module_doc doc then score - 5 else score);
          doc_coverage = coverage doc;
          score = (if doc_coverage < 1 / 2 then score - 10
                   else if doc_coverage < 4 / 5 then score - 5
                   else score);
          score = fold smell_step (q_code_smells results) score
      in max 0 (min 100 score))"

definition get_grade :: "int \<Rightarrow> string" where
  "get_grade score =
     (if score \<ge> 90 then ''A''
      else if score \<ge> 80 then ''B''
      else if score \<ge> 70 then ''C''
      else if score \<ge> 60 then ''D''
      else ''F'')"

text \<open>The scoring rule as the specification words it: one deduction per criterion.\<close>

definition count_severity :: "string \<Rightarrow> smell list \<Rightarrow> int" where
  "count_severity sev smells = int (length (filter (\<lambda>s. smell_severity s = sev) smells))"

definition spec_deductions :: "quality_results \<Rightarrow> int" where
  "spec_deductions r =
     (if comment_ratio (q_metrics r) < 1 / 10 then 10 else 0)
     + (if average_line_length (q_metrics r) > 80 then 5 else 0)
     + (if lines_per_function (q_metrics r) > 30 then 10 else 0)
     + min (2 * int (length (q_naming_issues r))) 15
     + (if has_module_doc (q_documentation r) then 0 else 5)
     + (if coverage (q_documentation r) < 1 / 2 then 10
        else if coverage (q_documentation r) < 4 / 5 then 5 else 0)
     + (8 * count_severity ''high'' (q_code_smells r)
        + 5 * count_severity ''medium'' (q_code_smells r)
        + 2 * count_severity ''low'' (q_code_smells r))"

definition spec_score :: "quality_results \<Rightarrow> int" where
  "spec_score r = max 0 (min 100 (100 - spec_deductions r))"

definition known_severities :: "smell list \<Rightarrow> bool" where
  "known_severities smells =
     list_all (\<lambda>s. smell_severity s \<in> {''high'', ''medium'', ''low''}) smells"

section \<open>BasicAnalyzer: the pattern scan\<close>

text \<open>
  \<open>find_patterns\<close> runs two loops over the lines. The first collects magic numbers; it
  reads the numeric tokens of a line with \<open>re.findall\<close> and converts them with
  \<open>float\<close>, both taken as parameters here (\<open>float\<close> yields \<open>None\<close> where it raises
  \<open>ValueError\<close>). The second loop collects the runs of blank lines. The keys
  \<open>hardcoded_strings\<close> and \<open>empty_blocks\<close> are never filled.
\<close>

record magic_number =
  magic_line :: int
  magic_value :: string
  magic_context :: string

record blank_run =
  start_line :: int
  end_line :: int
  count :: int

record patterns =
  magic_numbers :: "magic_number list"
  hardcoded_strings :: "unit list"
  empty_blocks :: "unit list"
  consecutive_blank_lines :: "blank_run list"

definition magic_step ::
  "(string \<Rightarrow> string list) \<Rightarrow> (string \<Rightarrow> rat option) \<Rightarrow> int \<times> string
     \<Rightarrow> magic_number list \<Rightarrow> magic_number list" where
  "magic_step findall_numbers float il found =
     (let i = fst il; l = snd il
      in if is_comment_line l then found
         else fold (\<lambda>num found.
                      case float num of
                        None \<Rightarrow> found
                      | Some val \<Rightarrow>
                          if val \<notin> {0, 1, -1, 2, 10, 100}
                          then found @ [\<lparr>magic_line = i, magic_value = num,
                                          magic_context = take 50 (strip l)\<rparr>]
                          else found)
                   (findall_numbers l) found)"

text \<open>
  The state of the second loop is \<open>blank_count\<close>, \<open>blank_start\<close> and the runs
  reported so far. A run is appended when a line that is not blank ends it.
\<close>

definition blank_step ::
  "int \<times> string \<Rightarrow> int \<times> int \<times> blank_run list \<Rightarrow> int \<times> int \<times> blank_run list" where
  "blank_step il st =
     (let i = fst il; l = snd il;
          blank_count = fst st; blank_start = fst (snd st); runs = snd (snd st)
      in if strip l = [] then
           (blank_count + 1, (if blank_count = 0 then i else blank_start), runs)
         else
           (0, blank_start,
            (if blank_count > 2
             then runs @ [\<lparr>start_line = blank_start, end_line = i - 1, count = blank_count\<rparr>]
             else runs)))"

definition find_patterns ::
  "(string \<Rightarrow> string list) \<Rightarrow> (string \<Rightarrow> rat option) \<Rightarrow> string list \<Rightarrow> patterns" where
  "find_patterns findall_numbers float lines =
     \<lparr>magic_numbers = fold (magic_step findall_numbers float) (py_enumerate 1 lines) [],
      hardcoded_strings = [],
      empty_blocks = [],
      consecutive_blank_lines = snd (snd (fold blank_step (py_enumerate 1 lines) (0, 0, [])))\<rparr>"

text \<open>
  Two documents: four blank lines between two statements, and a statement followed by
  four blank lines that end the document.
\<close>

definition blank_lines_inside :: string where
  "blank_lines_inside =
     ''x = 1'' @ [newline, newline, newline, newline, newline] @ ''y = 2''"

definition blank_lines_at_end :: string where
  "blank_lines_at_end = ''x = 1'' @ [newline, newline, newline, newline]"

section \<open>PerformanceAnalyzer: the general checks\<close>












subsection \<open>The long-function rule as the specification words it\<close>






section \<open>Properties of strings and patterns\<close>


























section \<open>Properties of the security scan\<close>

lemma determine_severity_keys: "determine_severity c p \<in> set sev_keys"
  by (simp add: determine_severity_def sev_keys_def Let_def)

lemma counts_get:
  "k \<in> set sev_keys \<Longrightarrow> dict_get (counts_of fs) k = Inr (count_sev k fs)"
  by (auto simp: dict_get_def counts_of_def sev_keys_def)

lemma count_sev_snoc:
  "count_sev k (fs @ [f]) = count_sev k fs + (if issue_severity f = k then 1 else 0)"
  by (simp add: count_sev_def)

lemma counts_update_aux:
  assumes "k \<in> set sev_keys" and "issue_severity f = k"
  shows "AList.update k (count_sev k fs + 1) (counts_of fs) = counts_of (fs @ [f])"
proof -
  from assms(1) have "k = ''critical'' \<or> k = ''high'' \<or> k = ''medium'' \<or> k = ''low''"
    by (simp add: sev_keys_def)
  then show ?thesis
    using assms(2) by (elim disjE) (simp_all add: counts_of_def sev_keys_def count_sev_snoc)
qed

lemma counts_update:
  "issue_severity f \<in> set sev_keys \<Longrightarrow>
   AList.update (issue_severity f) (count_sev (issue_severity f) fs + 1) (counts_of fs)
     = counts_of (fs @ [f])"
  by (rule counts_update_aux) simp_all

lemma add_findings_Nil: "counted res \<Longrightarrow> add_findings [] res = res"
  by (simp add: add_findings_def counted_def)

lemma add_findings_append:
  "add_findings b (add_findings a res) = add_findings (a @ b) res"
  by (simp add: add_findings_def)

lemma counted_add_findings: "counted (add_findings new res)"
  by (simp add: add_findings_def counted_def)

lemma line_step_eq:
  assumes "counted res"
  shows "line_step c (fst r) (snd r) il (ci, res) =
           Inr (ci @ rule_findings [il] c r, add_findings (rule_findings [il] c r) res)"
proof (cases "fires (fst r) il")
  case False
  then show ?thesis
    using assms
    by (auto simp: line_step_def fires_def rule_findings_def add_findings_Nil Let_def)
next
  case True
  let ?f = "finding c r il"
  have sev: "issue_severity ?f \<in> set sev_keys"
    by (simp add: finding_def determine_severity_keys)
  have get: "dict_get (severity_counts res) (issue_severity ?f)
               = Inr (count_sev (issue_severity ?f) (issues res))"
    using assms counts_get [OF sev] by (simp add: counted_def)
  have upd: "AList.update (issue_severity ?f) (count_sev (issue_severity ?f) (issues res) + 1)
               (severity_counts res) = counts_of (issues res @ [?f])"
    using assms counts_update [OF sev] by (simp add: counted_def)
  have sevf: "issue_severity ?f = determine_severity c (fst r)"
    by (simp add: finding_def)
  from True have "line_step c (fst r) (snd r) il (ci, res) =
      Inr (ci @ [?f], res\<lparr>issues := issues res @ [?f],
                            severity_counts := counts_of (issues res @ [?f])\<rparr>)"
    using get upd unfolding sevf
    by (simp add: line_step_def fires_def Let_def finding_def)
  with True show ?thesis
    by (simp add: rule_findings_def add_findings_def)
qed

lemma rule_findings_Cons:
  "rule_findings (il # ils) c r = rule_findings [il] c r @ rule_findings ils c r"
  by (simp add: rule_findings_def)

lemma lines_fold_eq:
  "counted res \<Longrightarrow>
   fold_err (line_step c (fst r) (snd r)) ils (ci, res) =
     Inr (ci @ rule_findings ils c r, add_findings (rule_findings ils c r) res)"
proof (induction ils arbitrary: ci res)
  case Nil
  then show ?case by (simp add: rule_findings_def add_findings_Nil)
next
  case (Cons il ils)
  show ?case
    unfolding fold_err.simps line_step_eq [OF Cons.prems] sum.case
      Cons.IH [OF counted_add_findings] add_findings_append
    by (simp add: rule_findings_Cons [of il ils])
qed

lemma patterns_fold_eq:
  "counted res \<Longrightarrow>
   fold_err (pattern_step lines c) rs (ci, res) =
     Inr (ci @ concat (map (rule_findings (py_enumerate 1 lines) c) rs),
          add_findings (concat (map (rule_findings (py_enumerate 1 lines) c) rs)) res)"
proof (induction rs arbitrary: ci res)
  case Nil
  then show ?case by (simp add: add_findings_Nil)
next
  case (Cons r rs)
  show ?case
    unfolding fold_err.simps pattern_step_def lines_fold_eq [OF Cons.prems] sum.case
    unfolding pattern_step_def [symmetric] Cons.IH [OF counted_add_findings] add_findings_append
    by simp
qed

lemma category_step_eq:
  assumes "counted res"
  shows "category_step lines c res =
     Inr ((add_findings (category_findings (py_enumerate 1 lines) c) res)
           \<lparr>categories := category_counts (py_enumerate 1 lines) [c] (categories res)\<rparr>)"
  unfolding category_step_def Let_def patterns_fold_eq [OF assms]
  by (simp add: category_findings_def category_counts_def add_findings_def)

lemma counted_scanned: "counted (scanned ils cs res)"
  by (simp add: scanned_def add_findings_def counted_def)

lemma scanned_Nil: "counted res \<Longrightarrow> scanned ils [] res = res"
  by (simp add: scanned_def all_findings_def category_counts_def add_findings_Nil)

lemma scanned_Cons: "scanned ils cs (scanned ils [c] res) = scanned ils (c # cs) res"
  by (simp add: scanned_def all_findings_def category_counts_def add_findings_def)

lemma categories_fold_eq:
  "counted res \<Longrightarrow>
   fold_err (category_step lines) cs res = Inr (scanned (py_enumerate 1 lines) cs res)"
proof (induction cs arbitrary: res)
  case Nil
  then show ?case by (simp add: scanned_Nil)
next
  case (Cons c cs)
  have one: "category_step lines c res = Inr (scanned (py_enumerate 1 lines) [c] res)"
    unfolding category_step_eq [OF Cons.prems]
    by (simp add: scanned_def all_findings_def)
  show ?case
    unfolding fold_err.simps one sum.case Cons.IH [OF counted_scanned] scanned_Cons ..
qed

lemma patterns_to_check_eq: "patterns_to_check language = Inr (active_patterns language)"
  by (simp add: patterns_to_check_def active_patterns_def dict_get_def SECURITY_PATTERNS_def
      split: option.split)

lemma risk_of_counts:
  "severity_counts res = counts_of fs \<Longrightarrow> calculate_risk_score res = min (weighted fs) 100"
  by (simp add: calculate_risk_score_def counts_of_def sev_keys_def weighted_def Let_def
      mult.commute)

lemma analyze_eq:
  "analyze code language =
     Inr \<lparr>issues = all_findings (py_enumerate 1 (split_newline code)) (active_patterns (lower language)),
          severity_counts = counts_of (all_findings (py_enumerate 1 (split_newline code))
                                        (active_patterns (lower language))),
          categories = category_counts (py_enumerate 1 (split_newline code))
                         (active_patterns (lower language)) [],
          total_issues = int (length (all_findings (py_enumerate 1 (split_newline code))
                                        (active_patterns (lower language)))),
          risk_score = min (weighted (all_findings (py_enumerate 1 (split_newline code))
                                        (active_patterns (lower language)))) 100\<rparr>"
proof -
  let ?res = "\<lparr>issues = [],
                severity_counts = [(''critical'', 0), (''high'', 0), (''medium'', 0), (''low'', 0)],
                categories = []\<rparr>"
  let ?ils = "py_enumerate 1 (split_newline code)"
  let ?cs = "active_patterns (lower language)"
  have c: "counted ?res"
    by (simp add: counted_def counts_of_def sev_keys_def count_sev_def)
  have s: "severity_counts (scanned ?ils ?cs ?res) = counts_of (all_findings ?ils ?cs)"
    by (simp add: scanned_def add_findings_def)
  show ?thesis
    unfolding analyze_def Let_def patterns_to_check_eq sum.case
      categories_fold_eq [OF c] risk_of_counts [OF s]
    by (simp add: scanned_def add_findings_def)
qed

lemma split_newline_nonempty: "split_newline s \<noteq> []"
  by (induction s) (auto split: list.splits)

lemma split_newline_append:
  "split_newline (a @ newline # b) = split_newline a @ split_newline b"
  by (induction a) (auto split: list.splits simp: split_newline_nonempty)

lemma py_enumerate_append:
  "py_enumerate n (a @ b) = py_enumerate n a @ py_enumerate (n + int (length a)) b"
  by (induction a arbitrary: n) (simp_all add: add.assoc)

lemma count_sev_append: "count_sev k (a @ b) = count_sev k a + count_sev k b"
  by (simp add: count_sev_def)

lemma count_sev_nonneg: "0 \<le> count_sev k fs"
  by (simp add: count_sev_def)

lemma count_sev_rule_findings:
  "count_sev k (rule_findings (a @ b) c r)
     = count_sev k (rule_findings a c r) + count_sev k (rule_findings b c r)"
  by (simp add: rule_findings_def count_sev_append)

lemma count_sev_concat:
  "count_sev k (concat (map f xs)) = sum_list (map (\<lambda>x. count_sev k (f x)) xs)"
  by (induction xs) (simp_all add: count_sev_append, simp add: count_sev_def)

lemma count_sev_category_findings:
  "count_sev k (category_findings (a @ b) c)
     = count_sev k (category_findings a c) + count_sev k (category_findings b c)"
  by (simp add: category_findings_def count_sev_concat count_sev_rule_findings sum_list_addf)

lemma count_sev_all_findings:
  "count_sev k (all_findings (a @ b) cs)
     = count_sev k (all_findings a cs) + count_sev k (all_findings b cs)"
  by (simp add: all_findings_def count_sev_concat count_sev_category_findings sum_list_addf)

lemma weighted_nonneg: "0 \<le> weighted fs"
  by (simp add: weighted_def count_sev_nonneg)

lemma weighted_all_findings:
  "weighted (all_findings (a @ b) cs) = weighted (all_findings a cs) + weighted (all_findings b cs)"
  by (simp add: weighted_def count_sev_all_findings algebra_simps)


lemma severity_counts_shape:
  "counts_of fs = [(''critical'', count_sev ''critical'' fs), (''high'', count_sev ''high'' fs),
                   (''medium'', count_sev ''medium'' fs), (''low'', count_sev ''low'' fs)]"
  by (simp add: counts_of_def sev_keys_def)

subsection \<open>The severity counts\<close>

lemma analyze_empty_python:
  "analyze [] ''python'' =
     Inr \<lparr>issues = [],
          severity_counts = [(''critical'', 0), (''high'', 0), (''medium'', 0), (''low'', 0)],
          categories = [], total_issues = 0, risk_score = 0\<rparr>"
  by code_simp

lemma no_info_key:
  "fst ` set [(''critical'', 0 :: int), (''high'', 0), (''medium'', 0), (''low'', 0)]
       \<noteq> {''critical'', ''high'', ''medium'', ''low'', ''info''}"
proof
  assume "fst ` set [(''critical'', 0 :: int), (''high'', 0), (''medium'', 0), (''low'', 0)]
       = {''critical'', ''high'', ''medium'', ''low'', ''info''}"
  then have "''info'' \<in> fst ` set [(''critical'', 0 :: int), (''high'', 0), (''medium'', 0), (''low'', 0)]"
    by simp
  then show False by simp
qed

text \<open>
  Claim C1 as stated: the keys of \<open>severity_counts\<close> are the five severities critical,
  high, medium, low and info. For the empty Python document the dictionary has no key
  \<open>info\<close>.
\<close>

theorem severity_counts_five_keys_counterexample:
  "analyze [] ''python'' =
     Inr \<lparr>issues = [],
          severity_counts = [(''critical'', 0), (''high'', 0), (''medium'', 0), (''low'', 0)],
          categories = [], total_issues = 0, risk_score = 0\<rparr>
   \<and> fst ` set [(''critical'', 0 :: int), (''high'', 0), (''medium'', 0), (''low'', 0)]
       \<noteq> {''critical'', ''high'', ''medium'', ''low'', ''info''}"
  by (intro conjI analyze_empty_python no_info_key)

text \<open>
  Claim C1, amended. For every text and language \<open>analyze\<close> returns a result whose
  \<open>severity_counts\<close> has exactly the four keys critical, high, medium and low, each
  with the number of findings of that severity, which is 0 when there is none.
\<close>

theorem severity_counts_four_keys:
  "\<exists>r. analyze code language = Inr r
       \<and> fst ` set (severity_counts r) = {''critical'', ''high'', ''medium'', ''low''}
       \<and> map_of (severity_counts r) ''critical'' = Some (count_sev ''critical'' (issues r))
       \<and> map_of (severity_counts r) ''high'' = Some (count_sev ''high'' (issues r))
       \<and> map_of (severity_counts r) ''medium'' = Some (count_sev ''medium'' (issues r))
       \<and> map_of (severity_counts r) ''low'' = Some (count_sev ''low'' (issues r))
"
  unfolding analyze_eq severity_counts_shape by simp

text \<open>The amended claim at a one-line document.\<close>

theorem severity_counts_four_keys_witness:
  "\<exists>r. analyze ''x = eval(y)'' ''python'' = Inr r
       \<and> fst ` set (severity_counts r) = {''critical'', ''high'', ''medium'', ''low''}
       \<and> map_of (severity_counts r) ''critical'' = Some (count_sev ''critical'' (issues r))
       \<and> map_of (severity_counts r) ''high'' = Some (count_sev ''high'' (issues r))
       \<and> map_of (severity_counts r) ''medium'' = Some (count_sev ''medium'' (issues r))
       \<and> map_of (severity_counts r) ''low'' = Some (count_sev ''low'' (issues r))"
  by (rule severity_counts_four_keys)

subsection \<open>The risk score\<close>

text \<open>
  Claim C3. The risk score of every result of \<open>analyze\<close> is the smaller of 100 and
  25 times the critical count plus 15 times the high count plus 5 times the medium count
  plus 2 times the low count of its \<open>severity_counts\<close>; it lies between 0 and 100.
\<close>

theorem risk_score_formula:
  "\<exists>r c h m l. analyze code language = Inr r
       \<and> severity_counts r = [(''critical'', c), (''high'', h), (''medium'', m), (''low'', l)]
       \<and> risk_score r = min 100 (25 * c + 15 * h + 5 * m + 2 * l)
       \<and> 0 \<le> risk_score r \<and> risk_score r \<le> 100"
  unfolding analyze_eq severity_counts_shape
  using weighted_nonneg [of "all_findings (py_enumerate 1 (split_newline code)) (active_patterns (lower language))"]
  by (simp add: weighted_def min.commute)

text \<open>The formula at a one-line document.\<close>

theorem risk_score_formula_witness:
  "\<exists>r c h m l. analyze ''md5(x)'' ''python'' = Inr r
       \<and> severity_counts r = [(''critical'', c), (''high'', h), (''medium'', m), (''low'', l)]
       \<and> risk_score r = min 100 (25 * c + 15 * h + 5 * m + 2 * l)
       \<and> 0 \<le> risk_score r \<and> risk_score r \<le> 100"
  by (rule risk_score_formula)

text \<open>
  Claim C7. Appending a line to a document never lowers its risk score: the score of
  the text \<open>T\<close> followed by a line feed and \<open>l\<close> is at least the score of \<open>T\<close>,
  whatever \<open>l\<close> matches, and every score lies between 0 and 100.
\<close>

theorem risk_score_monotone:
  "\<exists>r r'. analyze T language = Inr r
       \<and> analyze (T @ [newline] @ l) language = Inr r'
       \<and> risk_score r \<le> risk_score r'
       \<and> 0 \<le> risk_score r \<and> risk_score r \<le> 100"
proof -
  let ?cs = "active_patterns (lower language)"
  let ?a = "py_enumerate 1 (split_newline T)"
  let ?b = "py_enumerate (1 + int (length (split_newline T))) (split_newline l)"
  have lines: "py_enumerate 1 (split_newline (T @ [newline] @ l)) = ?a @ ?b"
    by (simp add: split_newline_append py_enumerate_append)
  have "weighted (all_findings ?a ?cs) \<le> weighted (all_findings (?a @ ?b) ?cs)"
    using weighted_nonneg [of "all_findings ?b ?cs"] by (simp add: weighted_all_findings)
  moreover have "0 \<le> weighted (all_findings ?a ?cs)"
    by (rule weighted_nonneg)
  ultimately show ?thesis
    unfolding analyze_eq lines by simp
qed

text \<open>Appending a call of \<open>os.system\<close> to a one-line document.\<close>

theorem risk_score_monotone_witness:
  "\<exists>r r'. analyze ''import os'' ''python'' = Inr r
       \<and> analyze (''import os'' @ [newline] @ ''os.system(cmd)'') ''python'' = Inr r'
       \<and> risk_score r \<le> risk_score r'
       \<and> 0 \<le> risk_score r \<and> risk_score r \<le> 100"
  by (rule risk_score_monotone)

subsection \<open>Letter case\<close>

















subsection \<open>Severity of a finding\<close>

















section \<open>Properties of the quality score\<close>

lemma fold_smell_step:
  "known_severities smells \<Longrightarrow>
   fold smell_step smells score =
     score - (8 * count_severity ''high'' smells
              + 5 * count_severity ''medium'' smells
              + 2 * count_severity ''low'' smells)"
proof (induction smells arbitrary: score)
  case Nil
  then show ?case by (simp add: count_severity_def)
next
  case (Cons s smells)
  from Cons.prems have tl: "known_severities smells"
    and hd: "smell_severity s \<in> {''high'', ''medium'', ''low''}"
    by (simp_all add: known_severities_def)
  from hd show ?case
    unfolding fold_Cons o_apply Cons.IH [OF tl]
    by (auto simp: smell_step_def count_severity_def)
qed

lemma calculate_score_spec:
  assumes "known_severities (q_code_smells r)"
  shows "calculate_score r = spec_score r"
proof -
  have "calculate_score r = max 0 (min 100 (100 - spec_deductions r))"
    unfolding calculate_score_def Let_def fold_smell_step [OF assms] spec_deductions_def
    by (intro arg_cong [where f = "max 0"] arg_cong [where f = "min 100"])
       (simp add: mult.commute)
  then show ?thesis by (simp add: spec_score_def)
qed

lemma clamp_range: "0 \<le> max 0 (min 100 (x::int)) \<and> max 0 (min 100 x) \<le> 100"
  by simp

lemma calculate_score_range: "0 \<le> calculate_score r \<and> calculate_score r \<le> 100"
  unfolding calculate_score_def Let_def by (rule clamp_range)

lemma get_grade_iff:
  "(get_grade s = ''A'') = (90 \<le> s)"
  "(get_grade s = ''B'') = (80 \<le> s \<and> s < 90)"
  "(get_grade s = ''C'') = (70 \<le> s \<and> s < 80)"
  "(get_grade s = ''D'') = (60 \<le> s \<and> s < 70)"
  "(get_grade s = ''F'') = (s < 60)"
  by (auto simp: get_grade_def)

text \<open>
  Claim C2. The quality score starts at 100 and loses 10 for a comment ratio below
  0.10, 5 for an average line length above 80, 10 for more than 30 lines per function,
  2 per naming issue up to 15, 5 without a module docstring, 10 for a documentation
  coverage below 0.50 or else 5 below 0.80, and 8, 5 or 2 per code smell of severity
  high, medium or low, and is then clamped to the range from 0 to 100. The code smells
  carry one of these three severities, the only ones the smell detector writes. The
  grade is A from 90 on, B from 80, C from 70, D from 60, and F below.
\<close>

theorem quality_score_and_grade:
  assumes "known_severities (q_code_smells r)"
  shows "calculate_score r = spec_score r
       \<and> 0 \<le> calculate_score r \<and> calculate_score r \<le> 100
       \<and> (get_grade s = ''A'') = (90 \<le> s)
       \<and> (get_grade s = ''B'') = (80 \<le> s \<and> s < 90)
       \<and> (get_grade s = ''C'') = (70 \<le> s \<and> s < 80)
       \<and> (get_grade s = ''D'') = (60 \<le> s \<and> s < 70)
       \<and> (get_grade s = ''F'') = (s < 60)
       \<and> get_grade 90 = ''A'' \<and> get_grade 89 = ''B'' \<and> get_grade 70 = ''C''
       \<and> get_grade 69 = ''D'' \<and> get_grade 59 = ''F''"
proof -
  have "get_grade 90 = ''A'' \<and> get_grade 89 = ''B'' \<and> get_grade 70 = ''C''
       \<and> get_grade 69 = ''D'' \<and> get_grade 59 = ''F''"
    by (simp add: get_grade_def)
  with calculate_score_spec [OF assms] calculate_score_range [of r] get_grade_iff [of s]
  show ?thesis by blast
qed

text \<open>
  A module with a comment ratio of 1/20, long lines, three naming issues, no module
  docstring, a coverage of 3/5 and one smell of each severity scores
  100 - 10 - 5 - 6 - 5 - 5 - 15 = 54, an F.
\<close>

theorem quality_score_and_grade_witness:
  "known_severities
     [\<lparr>smell_line = 3, smell_type = ''deep_nesting'', smell_message = [], smell_severity = ''high''\<rparr>,
      \<lparr>smell_line = 9, smell_type = ''long_method'', smell_message = [], smell_severity = ''medium''\<rparr>,
      \<lparr>smell_line = 0, smell_type = ''duplicate_code'', smell_message = [], smell_severity = ''low''\<rparr>]
   \<and> calculate_score
      \<lparr>q_metrics = \<lparr>comment_ratio = 1 / 20, average_line_length = 171 / 2, lines_per_function = 12\<rparr>,
       q_naming_issues =
         [\<lparr>naming_line = 1, naming_name = ''a'', naming_type = ''variable'', naming_message = []\<rparr>,
          \<lparr>naming_line = 2, naming_name = ''b'', naming_type = ''variable'', naming_message = []\<rparr>,
          \<lparr>naming_line = 4, naming_name = ''fooBar'', naming_type = ''function'', naming_message = []\<rparr>],
       q_documentation = \<lparr>has_module_doc = False, coverage = 3 / 5\<rparr>,
       q_code_smells =
         [\<lparr>smell_line = 3, smell_type = ''deep_nesting'', smell_message = [], smell_severity = ''high''\<rparr>,
          \<lparr>smell_line = 9, smell_type = ''long_method'', smell_message = [], smell_severity = ''medium''\<rparr>,
          \<lparr>smell_line = 0, smell_type = ''duplicate_code'', smell_message = [], smell_severity = ''low''\<rparr>]\<rparr>
     = 54
   \<and> get_grade 54 = ''F''"
proof -
  have k: "known_severities
     [\<lparr>smell_line = 3, smell_type = ''deep_nesting'', smell_message = [], smell_severity = ''high''\<rparr>,
      \<lparr>smell_line = 9, smell_type = ''long_method'', smell_message = [], smell_severity = ''medium''\<rparr>,
      \<lparr>smell_line = 0, smell_type = ''duplicate_code'', smell_message = [], smell_severity = ''low''\<rparr>]"
    by (simp add: known_severities_def)
  show ?thesis
    using k quality_score_and_grade
      [of "\<lparr>q_metrics = \<lparr>comment_ratio = 1 / 20, average_line_length = 171 / 2, lines_per_function = 12\<rparr>,
       q_naming_issues =
         [\<lparr>naming_line = 1, naming_name = ''a'', naming_type = ''variable'', naming_message = []\<rparr>,
          \<lparr>naming_line = 2, naming_name = ''b'', naming_type = ''variable'', naming_message = []\<rparr>,
          \<lparr>naming_line = 4, naming_name = ''fooBar'', naming_type = ''function'', naming_message = []\<rparr>],
       q_documentation = \<lparr>has_module_doc = False, coverage = 3 / 5\<rparr>,
       q_code_smells =
         [\<lparr>smell_line = 3, smell_type = ''deep_nesting'', smell_message = [], smell_severity = ''high''\<rparr>,
          \<lparr>smell_line = 9, smell_type = ''long_method'', smell_message = [], smell_severity = ''medium''\<rparr>,
          \<lparr>smell_line = 0, smell_type = ''duplicate_code'', smell_message = [], smell_severity = ''low''\<rparr>]\<rparr>" 54]
    by (simp add: spec_score_def spec_deductions_def count_severity_def)
qed

section \<open>Properties of the pattern scan\<close>

lemma lines_inside:
  "split_newline blank_lines_inside = [''x = 1'', [], [], [], [], ''y = 2'']"
  by (simp add: blank_lines_inside_def newline_def)

lemma lines_at_end:
  "split_newline blank_lines_at_end = [''x = 1'', [], [], [], []]"
  by (simp add: blank_lines_at_end_def newline_def)

lemma strip_x: "strip ''x = 1'' \<noteq> []" "strip ''y = 2'' \<noteq> []" "strip [] = []"
  by (simp_all add: strip_def isspace_def)

text \<open>
  Claim C8 says that the scan reports every run of more than two blank lines, and one
  run of count 4 for four blank lines in a row. The loop appends a run only when a later
  line that is not blank ends it, so a run that reaches the end of the document is lost:
  \<open>blank_lines_at_end\<close> has the four blank lines 2 to 5 and no run is reported, while
  the same run followed by a statement is reported with its start, end and count.
\<close>

theorem trailing_blank_run_not_reported:
  "split_newline blank_lines_at_end = [''x = 1'', [], [], [], []]
   \<and> consecutive_blank_lines (find_patterns findall_numbers float (split_newline blank_lines_at_end)) = []
   \<and> consecutive_blank_lines (find_patterns findall_numbers float (split_newline blank_lines_inside))
       = [\<lparr>start_line = 2, end_line = 5, count = 4\<rparr>]"
  unfolding lines_inside lines_at_end
  by (simp add: find_patterns_def blank_step_def strip_x)

section \<open>Properties of the general performance checks\<close>








lemma py_enumerate_length: "length (py_enumerate n ls) = length ls"
  by (induction ls arbitrary: n) simp_all








end
